theory Spec2Isabelle
  imports Complex_Main "HOL-Library.Sublist"
begin

section \<open>Python strings\<close>

text \<open>
  A Python \<open>str\<close> is a sequence of Unicode code points; it is modelled as a list of
  natural numbers, one per code point, so that \<open>length\<close>, indexing and slicing count
  what Python counts. \<open>str\<close> embeds an ASCII literal of the source.
\<close>

type_synonym pystr = "nat list"

definition str :: "string \<Rightarrow> pystr" where
  "str s = map of_char s"

text \<open>
  \<open>str.isspace\<close> of one code point: the white-space code points of Unicode as CPython
  lists them (U+0009..U+000D, U+001C..U+0020, U+0085, U+00A0, U+1680, U+2000..U+200A,
  U+2028, U+2029, U+202F, U+205F, U+3000). \<open>str.strip()\<close> and \<open>str.split()\<close> use it.
\<close>

definition isspace :: "nat \<Rightarrow> bool" where
  "isspace c = ((9 \<le> c \<and> c \<le> 13) \<or> (28 \<le> c \<and> c \<le> 32) \<or> c = 133 \<or> c = 160 \<or> c = 5760
     \<or> (8192 \<le> c \<and> c \<le> 8202) \<or> c = 8232 \<or> c = 8233 \<or> c = 8239 \<or> c = 8287 \<or> c = 12288)"

text \<open>
  \<open>str.lower()\<close>. The case table of Unicode is not part of the repository, and the
  mapping is neither length-preserving nor context-free in general. Every function of
  the source that calls \<open>lower()\<close> therefore takes the case mapping as its first
  parameter \<open>lower\<close>, and what is proved of it holds for every such mapping.

  \<open>py_lower\<close> is \<open>str.lower()\<close> on text whose code points are all below U+0100 (A..Z
  and the Latin-1 capitals U+00C0..U+00DE without the multiplication sign U+00D7 move up
  by 32) and on white space, which \<open>lower()\<close> leaves as it is. It leaves every other code
  point unchanged and is not \<open>str.lower()\<close> there. It is only used where it is exact: to
  evaluate the functions on concrete ASCII inputs, and on messages of white space.
\<close>

type_synonym case_map = "pystr \<Rightarrow> pystr"

definition lower_cp :: "nat \<Rightarrow> nat" where
  "lower_cp c = (if (65 \<le> c \<and> c \<le> 90) \<or> (192 \<le> c \<and> c \<le> 214) \<or> (216 \<le> c \<and> c \<le> 222)
     then c + 32 else c)"

definition py_lower :: "pystr \<Rightarrow> pystr" where
  "py_lower s = map lower_cp s"

text \<open>\<open>s.strip()\<close>: white space removed at both ends.\<close>

definition py_strip :: "pystr \<Rightarrow> pystr" where
  "py_strip s = rev (dropWhile isspace (rev (dropWhile isspace s)))"

text \<open>
  \<open>s.split()\<close> with no separator: the maximal runs of non-white-space, scanned left to
  right; \<open>cur\<close> is the token being read.
\<close>

fun split_scan :: "pystr \<Rightarrow> pystr \<Rightarrow> pystr list" where
  "split_scan cur [] = (if cur = [] then [] else [cur])"
| "split_scan cur (c # cs) =
     (if isspace c then (if cur = [] then split_scan [] cs else cur # split_scan [] cs)
      else split_scan (cur @ [c]) cs)"

definition py_split :: "pystr \<Rightarrow> pystr list" where
  "py_split s = split_scan [] s"

text \<open>\<open>sub in s\<close>: \<open>sub\<close> occurs in \<open>s\<close> as a contiguous substring.\<close>

fun py_in :: "pystr \<Rightarrow> pystr \<Rightarrow> bool" where
  "py_in sub [] = (sub = [])"
| "py_in sub (c # cs) = (prefix sub (c # cs) \<or> py_in sub cs)"

text \<open>
  \<open>any(word in s for word in words)\<close>, and the loop
  \<open>for keyword in words: if keyword in s: return True\<close> followed by \<open>return False\<close>.
\<close>

primrec any_in :: "pystr list \<Rightarrow> pystr \<Rightarrow> bool" where
  "any_in [] s = False"
| "any_in (k # ks) s = (py_in k s \<or> any_in ks s)"

text \<open>\<open>s.startswith(p)\<close>.\<close>

definition startswith :: "pystr \<Rightarrow> pystr \<Rightarrow> bool" where
  "startswith s p = prefix p s"

text \<open>The index of the first occurrence of \<open>sub\<close> in \<open>s\<close>, if there is one.\<close>

fun first_index :: "pystr \<Rightarrow> pystr \<Rightarrow> nat option" where
  "first_index sub [] = (if sub = [] then Some 0 else None)"
| "first_index sub (c # cs) =
     (if prefix sub (c # cs) then Some 0 else map_option Suc (first_index sub cs))"

text \<open>
  \<open>s.find(sub, start)\<close>: the lowest index at or after \<open>start\<close> where \<open>sub\<close> occurs,
  or \<open>-1\<close>. A negative \<open>start\<close> counts from the end, as in a slice.
\<close>

definition py_find :: "pystr \<Rightarrow> pystr \<Rightarrow> int \<Rightarrow> int" where
  "py_find s sub start =
     (let n = int (length s);
          st = (if start < 0 then max 0 (start + n) else start)
      in if n < st then - 1
         else (case first_index sub (drop (nat st) s) of
                 None \<Rightarrow> - 1
               | Some i \<Rightarrow> st + int i))"

text \<open>
  \<open>s[i:j]\<close> for indices that are not negative (the only slice of the source has
  \<open>i = add_idx + 3\<close> and \<open>j = to_idx\<close>, both checked against \<open>-1\<close>).
\<close>

definition py_slice :: "pystr \<Rightarrow> int \<Rightarrow> int \<Rightarrow> pystr" where
  "py_slice s i j = drop (nat i) (take (nat j) s)"

text \<open>
  \<open>s.split(sep, 1)\<close>: at most one split, at the first occurrence of \<open>sep\<close>. Both calls
  of the source pass a literal separator that is not empty.
\<close>

definition py_split1 :: "pystr \<Rightarrow> pystr \<Rightarrow> pystr list" where
  "py_split1 s sep =
     (case first_index sep s of
        None \<Rightarrow> [s]
      | Some i \<Rightarrow> [take i s, drop (i + length sep) s])"

text \<open>
  \<open>s.replace(old, new)\<close>: every occurrence of \<open>old\<close>, left to right and without
  overlap, becomes \<open>new\<close>. \<open>replace_scan\<close> is the scan for an \<open>old\<close> that is not empty.
\<close>

fun replace_scan :: "pystr \<Rightarrow> pystr \<Rightarrow> pystr \<Rightarrow> pystr" where
  "replace_scan old new [] = []"
| "replace_scan old new (c # cs) =
     (if old \<noteq> [] \<and> prefix old (c # cs)
      then new @ replace_scan old new (drop (length old - 1) cs)
      else c # replace_scan old new cs)"

definition py_replace :: "pystr \<Rightarrow> pystr \<Rightarrow> pystr \<Rightarrow> pystr" where
  "py_replace s old new =
     (if old = [] then new @ concat (map (\<lambda>c. c # new) s) else replace_scan old new s)"

text \<open>\<open>str(n)\<close> of an integer: its decimal digits, with a minus sign when negative.\<close>

fun digits :: "nat \<Rightarrow> pystr" where
  "digits n = (if n < 10 then [48 + n] else digits (n div 10) @ [48 + n mod 10])"

definition str_int :: "int \<Rightarrow> pystr" where
  "str_int i = (if i < 0 then 45 # digits (nat (- i)) else digits (nat i))"

declare digits.simps [simp del]

section \<open>The agent and its surroundings\<close>

text \<open>
  \<open>TodoAgent\<close>: the attributes that \<open>__init__\<close> sets. \<open>client\<close> is the OpenAI handle; it
  is only created when a key is present, so the attribute may be absent (\<open>None\<close>).
  A user id is handed over as the text that \<open>str(user_id)\<close> gives.
\<close>

type_synonym user_id = pystr

record openai_client =
  client_api_key :: pystr
  client_base_url :: pystr

record agent =
  openrouter_api_key :: "pystr option"
  offline_mode :: bool
  current_user_id :: "user_id option"
  api_key :: "pystr option"
  model :: pystr
  base_url :: pystr
  client :: "openai_client option"

text \<open>What a call of the remote service can raise, each with the text of \<open>str(e)\<close>.\<close>

datatype failure =
    Timeout pystr
  | NetworkError pystr
  | HTTPError int pystr pystr
  | Unexpected pystr

fun exc_str :: "failure \<Rightarrow> pystr" where
  "exc_str (Timeout t) = t"
| "exc_str (NetworkError t) = t"
| "exc_str (HTTPError code body t) = t"
| "exc_str (Unexpected t) = t"

text \<open>
  A chat-completion request of the OpenAI handle (model, messages as role and content,
  temperature), and what the remote service does with it: a response, given by the
  \<open>message.content\<close> of each of its \<open>choices\<close>, or an exception. A content is a string
  or Python's \<open>None\<close> (the field is optional in the response).
\<close>

record chat_request =
  req_model :: pystr
  req_messages :: "(pystr \<times> pystr) list"
  req_temperature :: rat

datatype ai_outcome = Completion "pystr option list" | Raises failure

type_synonym backend = "openai_client \<Rightarrow> chat_request \<Rightarrow> ai_outcome"

text \<open>JSON values, for the dictionaries that \<open>_call_openrouter_api\<close> builds and returns.\<close>

datatype json =
    JNull
  | JNum rat
  | JStr pystr
  | JList "json list"
  | JObj "(pystr \<times> json) list"

record http_request =
  url :: pystr
  headers :: "(pystr \<times> pystr) list"
  payload :: json

datatype http_outcome = Returned json | HttpRaises failure

type_synonym transport = "http_request \<Rightarrow> http_outcome"

text \<open>
  The effects outside the agent object: the outbound calls made so far, in order, and
  the lines printed to standard output.
\<close>

datatype outbound = ChatCompletion openai_client chat_request | HttpPost http_request

record world =
  network :: "outbound list"
  stdout :: "pystr list"

definition print :: "pystr \<Rightarrow> world \<Rightarrow> world" where
  "print line w = w\<lparr>stdout := stdout w @ [line]\<rparr>"

definition send :: "outbound \<Rightarrow> world \<Rightarrow> world" where
  "send call w = w\<lparr>network := network w @ [call]\<rparr>"

subsection \<open>\<open>TodoAgent.__init__\<close>\<close>

text \<open>
  \<open>key\<close> is what \<open>os.getenv("OPENROUTER_API_KEY")\<close> returns. \<open>not bool(key)\<close> holds for
  \<open>None\<close> and for the empty string.
\<close>

definition init :: "pystr option \<Rightarrow> world \<Rightarrow> agent \<times> world" where
  "init key w =
     (let offline = (case key of None \<Rightarrow> True | Some k \<Rightarrow> k = []);
          ag = \<lparr> openrouter_api_key = key,
                 offline_mode = offline,
                 current_user_id = None,
                 api_key = key,
                 model = str ''openai/gpt-4o-mini'',
                 base_url = str ''https://openrouter.ai/api/v1'',
                 client = None \<rparr>
      in if offline
         then (ag, print (str ''Warning: OPENROUTER_API_KEY not found. Running in offline mode with limited functionality.'') w)
         else (ag\<lparr>client := Some \<lparr> client_api_key = (case key of Some k \<Rightarrow> k | None \<Rightarrow> []),
                                    client_base_url = str ''https://openrouter.ai/api/v1'' \<rparr>\<rparr>,
               print (str ''TodoAgent initialized with OpenRouter API'') w))"

section \<open>The fixed response texts\<close>

text \<open>
  The string literals that the handlers return, named here once. Code points outside
  ASCII and line breaks are written as numbers (10 is the line feed).
\<close>

subsection \<open>\<open>_handle_todo_command\<close>\<close>

definition ack_create :: pystr where
  \<open>ack_create =
     str ''I can help you create a todo! In a full implementation, I would create a todo based on your request.''\<close>

definition ack_list :: pystr where
  \<open>ack_list =
     str ''I can help you view your todos! In a full implementation, I would show your todo list.''\<close>

definition ack_complete :: pystr where
  \<open>ack_complete =
     str ''I can help you mark a todo as complete! In a full implementation, I would update the todo status.''\<close>

definition ack_delete :: pystr where
  \<open>ack_delete =
     str ''I can help you delete a todo! In a full implementation, I would remove the todo.''\<close>

definition ack_unrecognized :: pystr where
  \<open>ack_unrecognized =
     str ''I can help you manage your todos! Try saying things like 'Create a todo to buy groceries' or 'Show me my todos'.''\<close>

subsection \<open>\<open>_handle_general_conversation\<close>\<close>

definition chat_greeting :: pystr where
  \<open>chat_greeting =
     str ''Hello! I'm your todo assistant. I can help you manage your tasks and have a chat too! How can I help you today?''\<close>

definition chat_how_are_you :: pystr where
  \<open>chat_how_are_you =
     str ''I'm doing great, thanks for asking! I'm here and ready to help you with your todos or just chat. What's on your mind?''\<close>

definition chat_thanks :: pystr where
  \<open>chat_thanks =
     str ''You're welcome! I'm always here to help with your todos or chat. Is there anything else I can assist you with?''\<close>

definition chat_goodbye :: pystr where
  \<open>chat_goodbye =
     str ''Goodbye! Don't forget to check your todos. Come back anytime!''\<close>

definition chat_help :: pystr where
  \<open>chat_help =
     str ''I'm your friendly todo assistant! I can help you:'' @ [10, 10, 128221] @ str '' **Todo Management:**'' @ [10, 8226] @ str '' Create new todos: "Create a todo to buy groceries"'' @ [10, 8226] @ str '' View your todos: "Show me my todos"'' @ [10, 8226] @ str '' Mark complete: "Mark todo abc-123 as complete"'' @ [10, 8226] @ str '' Delete todos: "Delete todo abc-123"'' @ [10, 10, 128172] @ str '' **Chat with me:**'' @ [10, 8226] @ str '' Ask questions, tell jokes, or just say hi!'' @ [10, 8226] @ str '' I can talk about various topics'' @ [10, 10] @ str ''What would you like to do?''\<close>

definition chat_identity :: pystr where
  \<open>chat_identity =
     str ''I'm your personal todo assistant and chat companion! I help you manage your tasks while also being here for friendly conversation. I love helping people stay organized and productive!''\<close>

definition chat_weather :: pystr where
  \<open>chat_weather =
     str ''I don't have access to current weather or time data, but I can definitely help you manage your todos and chat about other things! What's on your agenda today?''\<close>

definition chat_joke :: pystr where
  \<open>chat_joke =
     str ''Why did the todo list go to therapy? It had too many unresolved issues! '' @ [128516] @ str '' What else can I help you with?''\<close>

definition responses :: "pystr list" where
  \<open>responses = map str
    [''That's interesting! Tell me more about that.'',
     ''I love chatting! What's been happening with you?'',
     ''Sounds good! How else can I help you today?'',
     ''I'm all ears! What's next on your mind?'',
     ''Great to hear from you! What else is going on?'',
     ''I enjoy our conversations! What's new with you?'']\<close>

subsection \<open>\<open>_handle_offline_fallback\<close>\<close>

definition offline_create :: pystr where
  \<open>offline_create =
     str ''I'd love to create a todo for you, but I'm currently in offline mode. Please try again when the AI service is available.''\<close>

definition offline_show :: pystr where
  \<open>offline_show =
     str ''I'd love to show you your todos, but I'm currently in offline mode. Please try again when the AI service is available.''\<close>

definition offline_update :: pystr where
  \<open>offline_update =
     str ''I'd love to update your todos, but I'm currently in offline mode. Please try again when the AI service is available.''\<close>

definition offline_delete :: pystr where
  \<open>offline_delete =
     str ''I'd love to delete that todo, but I'm currently in offline mode. Please try again when the AI service is available.''\<close>

definition offline_generic :: pystr where
  \<open>offline_generic =
     str ''I'm currently in offline mode due to connectivity issues. I can still help with basic todo management when the AI service is back online. What would you like to chat about in the meantime?''\<close>

subsection \<open>\<open>process_message\<close>, its last line\<close>

definition default_help :: pystr where
  \<open>default_help =
     str ''I can help you manage your todos! Try saying things like:'' @ [10] @
     str ''- 'Create a todo to buy groceries'' @ [39, 10] @ str ''- 'Show me my todos'' @ [39, 10] @ str ''- 'Mark todo abc-123 as complete'' @ [39, 10] @ str ''- 'Delete todo abc-123'' @ [39]\<close>

subsection \<open>\<open>_process_with_ai\<close>\<close>

definition system_prompt :: pystr where
  \<open>system_prompt =
     str ''You are a helpful assistant that manages todo items for users.'' @ [10] @
     str ''                    You can help users create, view, update, delete, and toggle completion status of todos.'' @ [10] @
     str ''                    Be friendly and conversational. If the user wants to perform todo operations, guide them on how to do it.'' @ [10] @
     str ''                    For example:'' @ [10] @
     str ''                    - To create: "Create a todo to buy groceries"'' @ [10] @
     str ''                    - To view: "Show me my todos"'' @ [10] @
     str ''                    - To complete: "Mark todo abc-123 as complete"'' @ [10] @
     str ''                    - To delete: "Delete todo abc-123"'' @ [10] @
     str ''                    ''\<close>

subsection \<open>\<open>_call_openrouter_api\<close>\<close>

definition apology_timeout :: pystr where
  \<open>apology_timeout =
     str ''The request timed out. Please check your internet connection and try again. I can still help you manage your todos if you'd like!''\<close>

definition apology_network :: pystr where
  \<open>apology_network =
     str ''I'm currently unable to connect to my AI services due to a network issue. I can help you manage your todos directly though. What would you like to do?''\<close>

definition apology_http :: "int \<Rightarrow> pystr" where
  \<open>apology_http status_code =
     str ''API Error '' @ str_int status_code @
     str '': I'm having trouble connecting to my AI services. What would you like to do with your todos?''\<close>

definition apology_unexpected :: pystr where
  \<open>apology_unexpected =
     str ''I'm experiencing an issue connecting to my AI services. What would you like to do with your todos?''\<close>

section \<open>Classification\<close>

text \<open>\<open>_is_todo_command\<close>.\<close>

definition todo_keywords :: "pystr list" where
  \<open>todo_keywords = map str
    [''create'', ''add'', ''new'', ''make'', ''todo'', ''task'', ''delete'', ''remove'',
     ''complete'', ''finish'', ''done'', ''mark'', ''show'', ''list'', ''view'', ''get'']\<close>

definition is_todo_command :: "pystr \<Rightarrow> bool" where
  "is_todo_command message_lower = any_in todo_keywords message_lower"

text \<open>\<open>_is_general_conversation\<close>.\<close>

definition general_keywords :: "pystr list" where
  \<open>general_keywords = map str
    [''hi'', ''hello'', ''hey'', ''greetings'', ''good morning'', ''good afternoon'',
     ''good evening'', ''how are you'', ''what's up'', ''howdy'', ''sup'', ''thanks'',
     ''thank you'', ''bye'', ''goodbye'', ''see you'', ''later'', ''how can you help'',
     ''what can you do'', ''help'', ''who are you'', ''what are you'',
     ''tell me about yourself'', ''introduce yourself'', ''nice to meet you'',
     ''pleased to meet you'', ''how's it going'', ''what's new'', ''how have you been'',
     ''long time no see'', ''what do you think'', ''in your opinion'', ''do you like'',
     ''favorite'', ''hobby'', ''interest'', ''passion'', ''dream'', ''goal'', ''wish'',
     ''weather'', ''time'', ''date'', ''day'', ''today'', ''tomorrow'', ''yesterday'',
     ''weekend'', ''vacation'', ''holiday'', ''birthday'', ''celebration'', ''party'',
     ''fun'', ''joke'', ''laugh'', ''smile'', ''happy'', ''sad'', ''angry'',
     ''excited'', ''bored'', ''tired'', ''hungry'', ''thirsty'', ''sleepy'', ''awake'',
     ''dream'', ''nightmare'', ''music'', ''song'', ''movie'', ''film'', ''book'',
     ''game'', ''sport'', ''food'', ''drink'', ''color'', ''animal'', ''place'',
     ''country'', ''city'', ''travel'', ''adventure'', ''story'', ''memory'',
     ''experience'']\<close>

definition question_words :: "pystr list" where
  \<open>question_words = map str
    [''who '', ''what '', ''where '', ''when '', ''why '', ''how '', ''which '',
     ''whose '']\<close>

primrec any_question :: "pystr list \<Rightarrow> pystr \<Rightarrow> bool" where
  "any_question [] s = False"
| "any_question (word # ws) s =
     ((startswith s word \<or> py_in (str '' '' @ word) s) \<or> any_question ws s)"

definition is_general_conversation :: "pystr \<Rightarrow> bool" where
  "is_general_conversation message_lower =
     (if any_in general_keywords message_lower then True
      else if any_question question_words message_lower then True
      else if length (py_split message_lower) \<le> 3 then True
      else False)"

section \<open>The handlers\<close>

text \<open>\<open>_handle_todo_command\<close>.\<close>

definition handle_todo_command :: "pystr \<Rightarrow> pystr \<Rightarrow> pystr" where
  "handle_todo_command user_id_str message_lower =
     (if any_in (map str [''create'', ''add'', ''new'', ''make'']) message_lower
         \<and> any_in (map str [''todo'', ''task'']) message_lower
      then ack_create
      else if any_in (map str [''show'', ''list'', ''view'', ''get'']) message_lower
         \<and> any_in (map str [''todo'', ''task'', ''todos'', ''tasks'']) message_lower
      then ack_list
      else if any_in (map str [''complete'', ''finish'', ''done'', ''mark'']) message_lower
         \<and> any_in (map str [''todo'', ''task'']) message_lower
      then ack_complete
      else if any_in (map str [''delete'', ''remove'']) message_lower
         \<and> any_in (map str [''todo'', ''task'']) message_lower
      then ack_delete
      else ack_unrecognized)"

text \<open>
  \<open>_handle_general_conversation\<close>. \<open>random.choice(responses)\<close> returns the element at an
  index below \<open>len(responses)\<close> that the generator picks; \<open>rnd\<close> is its draw.
\<close>

definition handle_general_conversation :: "case_map \<Rightarrow> nat \<Rightarrow> pystr \<Rightarrow> pystr" where
  "handle_general_conversation lower rnd message =
     (let message_lower = py_strip (lower message) in
      if any_in (map str [''hi'', ''hello'', ''hey'', ''greetings'', ''howdy'', ''sup'']) message_lower
      then chat_greeting
      else if py_in (str ''how are you'') message_lower \<or> py_in (str ''how's it going'') message_lower
      then chat_how_are_you
      else if any_in (map str [''thanks'', ''thank you'', ''thx'', ''ty'']) message_lower
      then chat_thanks
      else if any_in (map str [''bye'', ''goodbye'', ''see you'', ''later'', ''cya'']) message_lower
      then chat_goodbye
      else if any_in (map str [''help'', ''what can you do'', ''how can you help'']) message_lower
      then chat_help
      else if any_in (map str [''who are you'', ''what are you'', ''introduce yourself'',
                               ''tell me about yourself'']) message_lower
      then chat_identity
      else if any_in (map str [''weather'', ''time'', ''date'', ''day'']) message_lower
      then chat_weather
      else if any_in (map str [''joke'', ''funny'', ''laugh'']) message_lower
      then chat_joke
      else responses ! (rnd mod length responses))"

text \<open>\<open>_handle_offline_fallback\<close>.\<close>

definition handle_offline_fallback :: "case_map \<Rightarrow> pystr \<Rightarrow> pystr" where
  "handle_offline_fallback lower message =
     (let message_lower = py_strip (lower message) in
      if any_in (map str [''create'', ''add'', ''new'']) message_lower
         \<and> py_in (str ''todo'') message_lower
      then offline_create
      else if any_in (map str [''show'', ''list'', ''view'', ''get'']) message_lower
      then offline_show
      else if any_in (map str [''complete'', ''finish'', ''done'', ''mark'']) message_lower
      then offline_update
      else if any_in (map str [''delete'', ''remove'']) message_lower
      then offline_delete
      else offline_generic)"

section \<open>The AI call and the router\<close>

text \<open>
  \<open>self.client.chat.completions.create(...)\<close> followed by
  \<open>response.choices[0].message.content\<close>: the body of the \<open>try\<close> of \<open>_process_with_ai\<close>.
  It yields the content of the first choice as it is, a string or \<open>None\<close>, or the
  exception raised on the way: reading the attribute \<open>client\<close> of an agent that has none
  (AttributeError, before any call is made), the call itself, or indexing an empty
  \<open>choices\<close> (IndexError).
\<close>

definition ai_request :: "pystr \<Rightarrow> pystr \<Rightarrow> chat_request" where
  "ai_request user_id_str message =
     \<lparr> req_model = str ''openai/gpt-4o-mini'',
       req_messages =
         [(str ''system'', system_prompt),
          (str ''user'', str ''User ID: '' @ user_id_str @ [10] @ str ''Message: '' @ message)],
       req_temperature = 7 / 10 \<rparr>"

definition try_ai ::
  "backend \<Rightarrow> agent \<Rightarrow> world \<Rightarrow> pystr \<Rightarrow> pystr \<Rightarrow> (failure + pystr option) \<times> world" where
  "try_ai be self w user_id_str message =
     (case client self of
        None \<Rightarrow> (Inl (Unexpected ([39] @ str ''TodoAgent' object has no attribute 'client'' @ [39])), w)
      | Some c \<Rightarrow>
          (let request = ai_request user_id_str message;
               w' = send (ChatCompletion c request) w
           in case be c request of
                Raises e \<Rightarrow> (Inl e, w')
              | Completion [] \<Rightarrow> (Inl (Unexpected (str ''list index out of range'')), w')
              | Completion (content # rest) \<Rightarrow> (Inr content, w')))"

text \<open>
  \<open>_process_with_ai\<close>. The returned value is \<open>Some s\<close> for a string \<open>s\<close> and \<open>None\<close> for
  Python's \<open>None\<close>, which \<open>return response.choices[0].message.content\<close> hands on when
  the content is absent.
\<close>

definition process_with_ai ::
  "case_map \<Rightarrow> backend \<Rightarrow> agent \<Rightarrow> world \<Rightarrow> pystr \<Rightarrow> pystr \<Rightarrow> pystr option \<times> world" where
  "process_with_ai lower be self w user_id_str message =
     (if offline_mode self
      then (Some (handle_offline_fallback lower message),
            print (str ''OpenRouter API key not available, using offline mode'') w)
      else (case try_ai be self w user_id_str message of
              (Inr content, w') \<Rightarrow> (content, w')
            | (Inl e, w') \<Rightarrow>
                (Some (handle_offline_fallback lower message),
                 print (str ''Error calling OpenRouter API: '' @ exc_str e) w')))"

text \<open>
  \<open>process_message\<close>. It returns the returned value (\<open>Some s\<close> for a string \<open>s\<close>, \<open>None\<close>
  for Python's \<open>None\<close>), the agent object as the call leaves it and the world after the
  call.
\<close>

definition process_message ::
  "case_map \<Rightarrow> backend \<Rightarrow> nat \<Rightarrow> agent \<Rightarrow> world \<Rightarrow> user_id \<Rightarrow> pystr \<Rightarrow> pystr option
     \<Rightarrow> pystr option \<times> agent \<times> world" where
  "process_message lower be rnd self0 w user_id message conversation_id =
     (let self = self0\<lparr>current_user_id := Some user_id\<rparr>;
          user_id_str = user_id;
          message_lower = py_strip (lower message)
      in if is_todo_command message_lower
         then (Some (handle_todo_command user_id_str message_lower), self, w)
         else if is_general_conversation message_lower
         then (if \<not> offline_mode self
               then (case process_with_ai lower be self w user_id_str message of
                       (r, w') \<Rightarrow> (r, self, w'))
               else (Some (handle_general_conversation lower rnd message), self, w))
         else if \<not> offline_mode self
         then (case process_with_ai lower be self w user_id_str message of
                 (r, w') \<Rightarrow> (r, self, w'))
         else (Some default_help, self, w))"

text \<open>
  The branch that \<open>process_message\<close> takes on the normalised message: the test of
  \<open>_is_todo_command\<close> first, then that of \<open>_is_general_conversation\<close>, then the rest.
\<close>

datatype intent = TodoCommand | GeneralConversation | Other

definition classify :: "pystr \<Rightarrow> intent" where
  "classify message_lower =
     (if is_todo_command message_lower then TodoCommand
      else if is_general_conversation message_lower then GeneralConversation
      else Other)"

section \<open>Title extraction\<close>

text \<open>
  \<open>_extract_todo_title\<close>. \<open>title_fallback\<close> is the code after the chain of patterns: each
  word of \<open>words_to_remove\<close> in turn is replaced by one space, and an empty result of the
  final \<open>strip()\<close> becomes \<open>None\<close> (\<open>title.strip() or None\<close>). The pattern branches return
  their stripped match as it is.
\<close>

definition words_to_remove :: "pystr list" where
  "words_to_remove =
     map str [''create'', ''add'', ''new'', ''make'', ''todo'', ''to'', ''a'', ''an'', ''the'']"

definition title_fallback :: "pystr \<Rightarrow> pystr option" where
  "title_fallback message =
     (let title = foldl (\<lambda>title word. py_replace title word (str '' '')) message words_to_remove;
          stripped = py_strip title
      in if stripped = [] then None else Some stripped)"

definition extract_todo_title :: "case_map \<Rightarrow> pystr \<Rightarrow> pystr option" where
  "extract_todo_title lower message =
     (let message_lower = lower message in
      if py_in (str ''todo to'') message_lower then
        (let parts = py_split1 message (str ''todo to'') in
         if 1 < length parts then Some (py_strip (parts ! 1)) else title_fallback message)
      else if py_in (str ''todo:'') message then
        (let parts = py_split1 message (str ''todo:'') in
         if 1 < length parts then Some (py_strip (parts ! 1)) else title_fallback message)
      else if py_in (str ''add'') message_lower \<and> py_in (str ''to'') message_lower then
        (let add_idx = py_find message_lower (str ''add'') 0;
             to_idx = py_find message_lower (str ''to'') add_idx in
         if add_idx \<noteq> - 1 \<and> to_idx \<noteq> - 1
         then Some (py_strip (py_slice message (add_idx + 3) to_idx))
         else title_fallback message)
      else title_fallback message)"

section \<open>\<open>_call_openrouter_api\<close>\<close>

text \<open>
  The request that the method posts, and the dictionary it returns when the call fails:
  \<open>{"choices": [{"message": {"content": ...}}]}\<close>. \<open>if tools:\<close> holds for a list that
  is neither \<open>None\<close> nor empty. An absent key is formatted as \<open>None\<close> by the f-string.
\<close>

definition openrouter_request :: "agent \<Rightarrow> json list \<Rightarrow> json list option \<Rightarrow> http_request" where
  "openrouter_request self messages tools =
     (let hdrs = [(str ''Authorization'',
                   str ''Bearer '' @ (case api_key self of None \<Rightarrow> str ''None'' | Some k \<Rightarrow> k)),
                  (str ''Content-Type'', str ''application/json'')];
          payload0 = [(str ''model'', JStr (model self)),
                      (str ''messages'', JList messages),
                      (str ''temperature'', JNum (7 / 10))];
          payload1 = (case tools of
                        None \<Rightarrow> payload0
                      | Some [] \<Rightarrow> payload0
                      | Some (t # ts) \<Rightarrow> payload0 @ [(str ''tools'', JList (t # ts))])
      in \<lparr> url = base_url self @ str ''/chat/completions'', headers = hdrs, payload = JObj payload1 \<rparr>)"

definition content_response :: "pystr \<Rightarrow> json" where
  "content_response content =
     JObj [(str ''choices'', JList [JObj [(str ''message'', JObj [(str ''content'', JStr content)])]])]"

text \<open>
  The handlers of the \<open>try\<close> in their order: a timeout, any other request error, a
  status error, any other exception. The constructors of \<open>failure\<close> are these four
  disjoint cases.
\<close>

definition call_openrouter_api ::
  "transport \<Rightarrow> agent \<Rightarrow> world \<Rightarrow> json list \<Rightarrow> json list option \<Rightarrow> json \<times> world" where
  "call_openrouter_api post self w messages tools =
     (let request = openrouter_request self messages tools;
          w' = send (HttpPost request) w
      in case post request of
           Returned body \<Rightarrow> (body, w')
         | HttpRaises (Timeout t) \<Rightarrow>
             (content_response apology_timeout,
              print (str ''Timeout error calling OpenRouter API: '' @ t) w')
         | HttpRaises (NetworkError t) \<Rightarrow>
             (content_response apology_network,
              print (str ''Network error calling OpenRouter API: '' @ t) w')
         | HttpRaises (HTTPError status_code body t) \<Rightarrow>
             (content_response (apology_http status_code),
              print (str ''HTTP error from OpenRouter API: '' @ str_int status_code @ str '' - '' @ body) w')
         | HttpRaises (Unexpected t) \<Rightarrow>
             (content_response apology_unexpected,
              print (str ''Unexpected error calling OpenRouter API: '' @ t) w'))"

text \<open>\<open>response["choices"][0]["message"]["content"]\<close> of a returned dictionary.\<close>

definition first_content :: "json \<Rightarrow> pystr option" where
  "first_content j =
     (case j of
        JObj obj \<Rightarrow>
          (case map_of obj (str ''choices'') of
             Some (JList (JObj choice # rest)) \<Rightarrow>
               (case map_of choice (str ''message'') of
                  Some (JObj msg) \<Rightarrow>
                    (case map_of msg (str ''content'') of Some (JStr s) \<Rightarrow> Some s | _ \<Rightarrow> None)
                | _ \<Rightarrow> None)
           | _ \<Rightarrow> None)
      | _ \<Rightarrow> None)"

section \<open>The specification's reading of the classifier\<close>

text \<open>
  The classifier and the sub-intent resolution as the specification words them, over
  the declarative notions \<open>sublist\<close> (occurs as a contiguous substring) and \<open>prefix\<close>;
  they are compared with the code below.
\<close>

definition spec_todo_keywords :: "pystr list" where
  "spec_todo_keywords =
     map str [''create'', ''add'', ''new'', ''make'', ''todo'', ''task'', ''delete'', ''remove'',
              ''complete'', ''finish'', ''done'', ''mark'', ''show'', ''list'', ''view'', ''get'']"

definition spec_interrogatives :: "pystr list" where
  "spec_interrogatives =
     map str [''who'', ''what'', ''where'', ''when'', ''why'', ''how'', ''which'', ''whose'']"

definition contains_any :: "pystr list \<Rightarrow> pystr \<Rightarrow> bool" where
  "contains_any words text = (\<exists>k \<in> set words. sublist k text)"

definition classify_spec :: "pystr \<Rightarrow> intent" where
  "classify_spec text =
     (if contains_any spec_todo_keywords text then TodoCommand
      else if contains_any general_keywords text
           \<or> (\<exists>q \<in> set spec_interrogatives.
                 prefix (q @ str '' '') text \<or> sublist (str '' '' @ q @ str '' '') text)
           \<or> length (py_split text) \<le> 3
      then GeneralConversation
      else Other)"

datatype todo_sub_intent = Create | List | Complete | Delete | Unrecognized

definition resolve_todo_sub_intent :: "pystr \<Rightarrow> todo_sub_intent" where
  "resolve_todo_sub_intent text =
     (if contains_any (map str [''create'', ''add'', ''new'', ''make'']) text
         \<and> contains_any (map str [''todo'', ''task'']) text then Create
      else if contains_any (map str [''show'', ''list'', ''view'', ''get'']) text
         \<and> contains_any (map str [''todo'', ''task'', ''todos'', ''tasks'']) text then List
      else if contains_any (map str [''complete'', ''finish'', ''done'', ''mark'']) text
         \<and> contains_any (map str [''todo'', ''task'']) text then Complete
      else if contains_any (map str [''delete'', ''remove'']) text
         \<and> contains_any (map str [''todo'', ''task'']) text then Delete
      else Unrecognized)"

fun sub_intent_template :: "todo_sub_intent \<Rightarrow> pystr" where
  "sub_intent_template Create = ack_create"
| "sub_intent_template List = ack_list"
| "sub_intent_template Complete = ack_complete"
| "sub_intent_template Delete = ack_delete"
| "sub_intent_template Unrecognized = ack_unrecognized"

text \<open>
  Every text that \<open>process_message\<close> can return without the AI path: the five
  acknowledgements of \<open>_handle_todo_command\<close>, the eight canned answers and the pool of
  \<open>_handle_general_conversation\<close>, and the help text of the last line.
\<close>

definition offline_texts :: "pystr list" where
  "offline_texts =
     [ack_create, ack_list, ack_complete, ack_delete, ack_unrecognized,
      chat_greeting, chat_how_are_you, chat_thanks, chat_goodbye, chat_help, chat_identity,
      chat_weather, chat_joke, default_help] @ responses"

section \<open>Facts about the string operations\<close>

lemma py_in_sublist: "py_in sub s = sublist sub s"
  by (induction s) (auto simp: sublist_Cons_right)

lemma any_in_contains_any: "any_in ks s = contains_any ks s"
  by (induction ks) (auto simp: contains_any_def py_in_sublist)

section \<open>Facts about the handlers\<close>

lemma not_todo_no_keyword:
  assumes "\<not> is_todo_command ml"
  shows "\<not> py_in (str ''create'') ml" "\<not> py_in (str ''add'') ml" "\<not> py_in (str ''new'') ml"
    "\<not> py_in (str ''make'') ml" "\<not> py_in (str ''todo'') ml" "\<not> py_in (str ''task'') ml"
    "\<not> py_in (str ''delete'') ml" "\<not> py_in (str ''remove'') ml" "\<not> py_in (str ''complete'') ml"
    "\<not> py_in (str ''finish'') ml" "\<not> py_in (str ''done'') ml" "\<not> py_in (str ''mark'') ml"
    "\<not> py_in (str ''show'') ml" "\<not> py_in (str ''list'') ml" "\<not> py_in (str ''view'') ml"
    "\<not> py_in (str ''get'') ml"
  using assms by (simp_all add: is_todo_command_def todo_keywords_def)

lemma fallback_generic:
  "\<not> is_todo_command (py_strip (lower m)) \<Longrightarrow> handle_offline_fallback lower m = offline_generic"
  by (simp add: handle_offline_fallback_def not_todo_no_keyword)

lemma handle_todo_command_cases:
  "handle_todo_command u ml \<in> {ack_create, ack_list, ack_complete, ack_delete, ack_unrecognized}"
  by (simp add: handle_todo_command_def)

lemma handle_todo_command_resolve:
  "handle_todo_command u ml = sub_intent_template (resolve_todo_sub_intent ml)"
  by (simp add: handle_todo_command_def resolve_todo_sub_intent_def any_in_contains_any)

lemma responses_length: "length responses = 6"
  by (simp add: responses_def)

lemma handle_general_conversation_cases:
  "handle_general_conversation lower rnd m \<in>
     {chat_greeting, chat_how_are_you, chat_thanks, chat_goodbye, chat_help, chat_identity,
      chat_weather, chat_joke} \<union> set responses"
proof -
  have "responses ! (rnd mod length responses) \<in> set responses"
    by (simp add: responses_length)
  then show ?thesis
    by (simp add: handle_general_conversation_def Let_def)
qed




lemma offline_fallback_texts_nonempty:
  "offline_create \<noteq> []" "offline_show \<noteq> []" "offline_update \<noteq> []" "offline_delete \<noteq> []"
  "offline_generic \<noteq> []"
  by (simp_all add: offline_create_def offline_show_def offline_update_def offline_delete_def
      offline_generic_def str_def)




section \<open>Facts about the AI path and the router\<close>

lemma try_ai_stdout: "stdout (snd (try_ai be self w u m)) = stdout w"
  by (simp add: try_ai_def send_def Let_def split: option.splits ai_outcome.splits list.splits)



lemma process_with_ai_stdout:
  "stdout (snd (process_with_ai lower be self w u m)) \<noteq> stdout w \<Longrightarrow>
   fst (process_with_ai lower be self w u m) = Some (handle_offline_fallback lower m)"
  using try_ai_stdout [of be self w u m]
  by (cases "try_ai be self w u m")
     (auto simp: process_with_ai_def print_def split: if_splits sum.splits)

lemma classify_todo: "classify ml = TodoCommand \<longleftrightarrow> is_todo_command ml"
  by (simp add: classify_def)

lemma process_message_agent:
  "fst (snd (process_message lower be rnd self w u m conv)) = self\<lparr>current_user_id := Some u\<rparr>"
  by (simp add: process_message_def Let_def split: prod.splits)

lemma process_message_todo:
  "is_todo_command (py_strip (lower m)) \<Longrightarrow>
   process_message lower be rnd self w u m conv =
     (Some (handle_todo_command u (py_strip (lower m))), self\<lparr>current_user_id := Some u\<rparr>, w)"
  by (simp add: process_message_def Let_def)

lemma process_message_offline:
  "offline_mode self \<Longrightarrow>
   process_message lower be rnd self w u m conv =
     (let ml = py_strip (lower m) in
      (Some (if is_todo_command ml then handle_todo_command u ml
             else if is_general_conversation ml then handle_general_conversation lower rnd m
             else default_help),
       self\<lparr>current_user_id := Some u\<rparr>, w))"
  by (simp add: process_message_def Let_def)

lemma process_message_online:
  "\<not> offline_mode self \<Longrightarrow> \<not> is_todo_command (py_strip (lower m)) \<Longrightarrow>
   process_message lower be rnd self w u m conv =
     (fst (process_with_ai lower be (self\<lparr>current_user_id := Some u\<rparr>) w u m),
      self\<lparr>current_user_id := Some u\<rparr>,
      snd (process_with_ai lower be (self\<lparr>current_user_id := Some u\<rparr>) w u m))"
  by (simp add: process_message_def Let_def split: prod.splits)

lemma init_offline:
  "offline_mode (fst (init None w))" "offline_mode (fst (init (Some []) w))"
  "k \<noteq> [] \<Longrightarrow> \<not> offline_mode (fst (init (Some k) w))"
  by (simp_all add: init_def Let_def)

section \<open>The claims\<close>

text \<open>
  Claim C4. For every message whose normalised form \<open>message.lower().strip()\<close> is
  classified as a todo command, \<open>process_message\<close> returns the fixed acknowledgement of
  the sub-intent resolved on that normalised form and leaves the world as it was: no
  call of the AI backend is made, whatever the mode of the agent and whatever the
  backend would answer. The case mapping \<open>lower\<close> is arbitrary, so this holds of
  \<open>str.lower()\<close> on every Unicode string.
\<close>

theorem todo_command_never_calls_ai:
  assumes "classify (py_strip (lower message)) = TodoCommand"
  shows "process_message lower be rnd self w user_id message conv =
           (Some (sub_intent_template (resolve_todo_sub_intent (py_strip (lower message)))),
            self\<lparr>current_user_id := Some user_id\<rparr>, w)
         \<and> network (snd (snd (process_message lower be rnd self w user_id message conv))) = network w"
  using assms
  by (simp add: classify_todo process_message_todo handle_todo_command_resolve)

text \<open>
  Two instances: an ASCII message under \<open>py_lower\<close>, and the message \<open>todo mar\<close> followed
  by the Kelvin sign U+212A under a case mapping that lowers that sign to \<open>k\<close>, as
  \<open>str.lower()\<close> does.
\<close>

theorem todo_command_never_calls_ai_witness:
  "process_message py_lower (\<lambda>c r. Completion [Some (str ''pong'')]) 0
      (fst (init (Some (str ''sk-test'')) \<lparr>network = [], stdout = []\<rparr>))
      \<lparr>network = [], stdout = []\<rparr> (str ''u1'') (str ''Show me my todos'') None
    = (Some ack_list,
       (fst (init (Some (str ''sk-test'')) \<lparr>network = [], stdout = []\<rparr>))
         \<lparr>current_user_id := Some (str ''u1'')\<rparr>,
       \<lparr>network = [], stdout = []\<rparr>)
   \<and> fst (process_message (map (\<lambda>c. if c = 8490 then 107 else lower_cp c))
        (\<lambda>c r. Completion [Some (str ''pong'')]) 0
        (fst (init (Some (str ''sk-test'')) \<lparr>network = [], stdout = []\<rparr>))
        \<lparr>network = [], stdout = []\<rparr> (str ''u1'') (str ''todo mar'' @ [8490]) None)
     = Some ack_complete"
proof -
  let ?kelvin = "map (\<lambda>c. if c = 8490 then 107 else lower_cp c)"
  have n: "py_strip (py_lower (str ''Show me my todos'')) = str ''show me my todos''"
    by (simp add: str_def py_lower_def lower_cp_def py_strip_def isspace_def)
  have c: "classify (str ''show me my todos'') = TodoCommand"
    by (simp add: classify_def is_todo_command_def todo_keywords_def str_def)
  have r: "resolve_todo_sub_intent (str ''show me my todos'') = List"
    by (simp add: resolve_todo_sub_intent_def contains_any_def str_def sublist_Cons_right)
  have n': "py_strip (?kelvin (str ''todo mar'' @ [8490])) = str ''todo mark''"
    by (simp add: str_def lower_cp_def py_strip_def isspace_def)
  have c': "classify (str ''todo mark'') = TodoCommand"
    by (simp add: classify_def is_todo_command_def todo_keywords_def str_def)
  have r': "resolve_todo_sub_intent (str ''todo mark'') = Complete"
    by (simp add: resolve_todo_sub_intent_def contains_any_def str_def sublist_Cons_right)
  have k: "classify (py_strip (py_lower (str ''Show me my todos''))) = TodoCommand"
    by (simp only: n c)
  have k': "classify (py_strip (?kelvin (str ''todo mar'' @ [8490]))) = TodoCommand"
    by (simp only: n' c')
  note t = todo_command_never_calls_ai [where lower = py_lower and message = "str ''Show me my todos''",
      OF k, THEN conjunct1, unfolded n r]
  note t' = todo_command_never_calls_ai [where lower = ?kelvin and message = "str ''todo mar'' @ [8490]",
      OF k', THEN conjunct1, unfolded n' r']
  show ?thesis
    by (simp only: t t' fst_conv sub_intent_template.simps simp_thms)
qed

text \<open>
  Claim C5. An agent constructed without a key, or with an empty one, is in offline
  mode. For an agent in offline mode, no call of \<open>process_message\<close> on any input adds an
  outbound call to the world, the agent stays in offline mode, and the response is one
  of the fixed texts of \<open>offline_texts\<close> (templates and pool), whatever the case mapping.
\<close>

theorem offline_mode_no_network:
  assumes "offline_mode self"
  shows "network (snd (snd (process_message lower be rnd self w user_id message conv))) = network w
       \<and> fst (process_message lower be rnd self w user_id message conv) \<in> Some ` set offline_texts
       \<and> offline_mode (fst (snd (process_message lower be rnd self w user_id message conv)))
       \<and> offline_mode (fst (init None w0)) \<and> offline_mode (fst (init (Some []) w0))"
proof -
  have "handle_todo_command user_id (py_strip (lower message)) \<in> set offline_texts"
    using handle_todo_command_cases [of user_id "py_strip (lower message)"]
    by (auto simp: offline_texts_def)
  moreover have "handle_general_conversation lower rnd message \<in> set offline_texts"
    using handle_general_conversation_cases [of lower rnd message]
    by (auto simp: offline_texts_def)
  moreover have "default_help \<in> set offline_texts"
    by (simp add: offline_texts_def)
  ultimately show ?thesis
    using assms by (simp add: process_message_offline Let_def init_offline)
qed

theorem offline_mode_no_network_witness:
  "network (snd (snd (process_message py_lower (\<lambda>c r. Completion [Some (str ''pong'')]) 0
      (fst (init None \<lparr>network = [], stdout = []\<rparr>))
      \<lparr>network = [], stdout = []\<rparr> (str ''u1'') (str ''hello'') None))) = []
   \<and> fst (process_message py_lower (\<lambda>c r. Completion [Some (str ''pong'')]) 0
      (fst (init None \<lparr>network = [], stdout = []\<rparr>))
      \<lparr>network = [], stdout = []\<rparr> (str ''u1'') (str ''hello'') None) \<in> Some ` set offline_texts"
  using offline_mode_no_network [of "fst (init None \<lparr>network = [], stdout = []\<rparr>)" py_lower
      "\<lambda>c r. Completion [Some (str ''pong'')]" 0 "\<lparr>network = [], stdout = []\<rparr>" "str ''u1''" "str ''hello''" None]
  by (simp add: init_offline)

text \<open>
  Claim C8, as the code has it. \<open>process_message\<close> is not stateless: its first
  statement stores the caller's user id in the attribute \<open>current_user_id\<close> of the shared
  agent object. Every other attribute (mode, both keys, model, base URL, client) is left
  unchanged.
\<close>

theorem process_message_sets_current_user:
  "fst (snd (process_message lower be rnd self w user_id message conv))
     = self\<lparr>current_user_id := Some user_id\<rparr>
   \<and> offline_mode (fst (snd (process_message lower be rnd self w user_id message conv))) = offline_mode self
   \<and> openrouter_api_key (fst (snd (process_message lower be rnd self w user_id message conv))) = openrouter_api_key self
   \<and> api_key (fst (snd (process_message lower be rnd self w user_id message conv))) = api_key self
   \<and> model (fst (snd (process_message lower be rnd self w user_id message conv))) = model self
   \<and> base_url (fst (snd (process_message lower be rnd self w user_id message conv))) = base_url self
   \<and> client (fst (snd (process_message lower be rnd self w user_id message conv))) = client self
   \<and> current_user_id (fst (snd (process_message lower be rnd self w user_id message conv))) = Some user_id"
  by (simp add: process_message_agent)

theorem process_message_sets_current_user_witness:
  "current_user_id (fst (snd (process_message py_lower (\<lambda>c r. Completion []) 0
      (fst (init None \<lparr>network = [], stdout = []\<rparr>))
      \<lparr>network = [], stdout = []\<rparr> (str ''u1'') (str ''hello'') None))) = Some (str ''u1'')"
  using process_message_sets_current_user [of py_lower "\<lambda>c r. Completion []" 0
      "fst (init None \<lparr>network = [], stdout = []\<rparr>)" "\<lparr>network = [], stdout = []\<rparr>"
      "str ''u1''" "str ''hello''" None]
  by simp

text \<open>
  The claim as the specification states it (every attribute unchanged) fails on a
  freshly constructed agent: after one call the agent object differs from the one
  before the call.
\<close>

theorem process_message_stateless_counterexample:
  "fst (snd (process_message py_lower (\<lambda>c r. Completion []) 0
      (fst (init None \<lparr>network = [], stdout = []\<rparr>))
      \<lparr>network = [], stdout = []\<rparr> (str ''u1'') (str ''hello'') None))
   \<noteq> fst (init None \<lparr>network = [], stdout = []\<rparr>)"
proof -
  have "current_user_id (fst (init None \<lparr>network = [], stdout = []\<rparr>)) = None"
    by (simp add: init_def Let_def)
  moreover have "current_user_id (fst (snd (process_message py_lower (\<lambda>c r. Completion []) 0
      (fst (init None \<lparr>network = [], stdout = []\<rparr>))
      \<lparr>network = [], stdout = []\<rparr> (str ''u1'') (str ''hello'') None))) = Some (str ''u1'')"
    by (simp add: process_message_agent)
  ultimately show ?thesis by auto
qed

subsection \<open>Concrete inputs used below\<close>

lemma norm_hello: "py_strip (py_lower (str ''hello'')) = str ''hello''"
  by (simp add: str_def py_lower_def lower_cp_def py_strip_def isspace_def)

lemma hello_not_todo: "\<not> is_todo_command (str ''hello'')"
  by (simp add: is_todo_command_def todo_keywords_def str_def)

lemma init_online_fields:
  "k \<noteq> [] \<Longrightarrow>
   client (fst (init (Some k) w)) =
     Some \<lparr>client_api_key = k, client_base_url = str ''https://openrouter.ai/api/v1''\<rparr>"
  by (simp add: init_def Let_def)

lemma sk_test_nonempty: "str ''sk-test'' \<noteq> []"
  by (simp add: str_def)

lemma str_int_500: "str_int 500 = str ''500''"
  by (simp add: str_int_def str_def digits.simps [of 500] digits.simps [of 50] digits.simps [of 5])

subsection \<open>The fallback handler behind the router\<close>

text \<open>
  Claim C10. \<open>_process_with_ai\<close> prints a line exactly where it calls
  \<open>_handle_offline_fallback\<close>, and nothing else on the paths of \<open>process_message\<close> prints;
  so the standard output grows during a call of \<open>process_message\<close> exactly when the
  fallback handler is reached. Whenever that happens, the message is not a todo command,
  the response is the handler's result, and none of the handler's four keyword branches
  matches: the result is the generic offline text. Router and handler apply the same
  \<open>lower().strip()\<close>, so this holds whatever the case mapping.
\<close>

theorem fallback_reached_generic:
  assumes "stdout (snd (snd (process_message lower be rnd self w user_id message conv))) \<noteq> stdout w"
  shows "\<not> is_todo_command (py_strip (lower message))
       \<and> fst (process_message lower be rnd self w user_id message conv)
           = Some (handle_offline_fallback lower message)
       \<and> handle_offline_fallback lower message = offline_generic"
proof -
  have nt: "\<not> is_todo_command (py_strip (lower message))"
    using assms by (auto simp: process_message_todo)
  have on: "\<not> offline_mode self"
    using assms by (auto simp: process_message_offline Let_def)
  from assms have "stdout (snd (process_with_ai lower be (self\<lparr>current_user_id := Some user_id\<rparr>) w user_id message)) \<noteq> stdout w"
    by (simp add: process_message_online [where lower = lower and m = message, OF on nt])
  then have "fst (process_with_ai lower be (self\<lparr>current_user_id := Some user_id\<rparr>) w user_id message)
      = Some (handle_offline_fallback lower message)"
    by (rule process_with_ai_stdout)
  then show ?thesis
    using nt by (simp add: process_message_online [where lower = lower and m = message, OF on nt] fallback_generic)
qed

theorem fallback_reached_generic_witness:
  "fst (process_message py_lower (\<lambda>c r. Raises (Timeout (str ''timed out''))) 0
      (fst (init (Some (str ''sk-test'')) \<lparr>network = [], stdout = []\<rparr>))
      \<lparr>network = [], stdout = []\<rparr> (str ''u1'') (str ''hello'') None) = Some offline_generic"
proof -
  let ?be = "\<lambda>(c::openai_client) (r::chat_request). Raises (Timeout (str ''timed out''))"
  let ?w = "\<lparr>network = [], stdout = []\<rparr>"
  let ?ag = "fst (init (Some (str ''sk-test'')) ?w)"
  have on: "\<not> offline_mode ?ag"
    by (simp add: init_offline sk_test_nonempty)
  have nt: "\<not> is_todo_command (py_strip (py_lower (str ''hello'')))"
    by (simp add: norm_hello hello_not_todo)
  have "stdout (snd (snd (process_message py_lower ?be 0 ?ag ?w (str ''u1'') (str ''hello'') None))) \<noteq> stdout ?w"
    using on
    by (simp add: process_message_online [where lower = py_lower and m = "str ''hello''", OF on nt] process_with_ai_def try_ai_def
        init_online_fields sk_test_nonempty Let_def print_def send_def)
  from fallback_reached_generic [OF this] show ?thesis by simp
qed

subsection \<open>Transport failures\<close>

lemma apology_texts_nonempty:
  "apology_timeout \<noteq> []" "apology_network \<noteq> []" "apology_http code \<noteq> []"
  "apology_unexpected \<noteq> []"
  by (simp_all add: apology_timeout_def apology_network_def apology_http_def
      apology_unexpected_def str_def)

lemma first_content_response: "first_content (content_response s) = Some s"
  by (simp add: first_content_def content_response_def)

lemma call_openrouter_api_failure:
  "post (openrouter_request self messages tools) = HttpRaises f \<Longrightarrow>
   fst (call_openrouter_api post self w messages tools) =
     content_response (case f of
         Timeout t \<Rightarrow> apology_timeout
       | NetworkError t \<Rightarrow> apology_network
       | HTTPError status_code body t \<Rightarrow> apology_http status_code
       | Unexpected t \<Rightarrow> apology_unexpected)"
  by (cases f) (simp_all add: call_openrouter_api_def Let_def)

lemma process_with_ai_raises:
  "\<not> offline_mode self \<Longrightarrow> client self = Some c \<Longrightarrow> be c (ai_request u m) = Raises f \<Longrightarrow>
   fst (process_with_ai lower be self w u m) = Some (handle_offline_fallback lower m)"
  by (simp add: process_with_ai_def try_ai_def Let_def)

text \<open>
  Claim C2, as the code has it. Under every transport failure \<open>f\<close> (timeout, request
  error, status error, any other exception) \<open>_call_openrouter_api\<close> returns a dictionary
  whose \<open>choices[0].message.content\<close> is the apology of that failure; each apology is
  non-empty and the one for a status error contains the decimal status code. The router
  does not use that method: \<open>process_message\<close> goes through \<open>_process_with_ai\<close>, and when
  the AI call of an online agent raises \<open>f\<close> on a message whose normalised form
  \<open>message.lower().strip()\<close> is not a todo command, the response is the result of
  \<open>_handle_offline_fallback\<close>, which is the non-empty generic offline text. The case
  mapping \<open>lower\<close> is arbitrary.
\<close>

theorem transport_failure_responses:
  assumes "post (openrouter_request self messages tools) = HttpRaises f"
    and "\<not> offline_mode self" and "client self = Some c"
    and "be c (ai_request user_id message) = Raises f"
    and "\<not> is_todo_command (py_strip (lower message))"
  shows "first_content (fst (call_openrouter_api post self w messages tools))
           = Some (case f of
                     Timeout t \<Rightarrow> apology_timeout
                   | NetworkError t \<Rightarrow> apology_network
                   | HTTPError status_code body t \<Rightarrow> apology_http status_code
                   | Unexpected t \<Rightarrow> apology_unexpected)
       \<and> apology_timeout \<noteq> [] \<and> apology_network \<noteq> [] \<and> apology_http status \<noteq> []
       \<and> apology_unexpected \<noteq> []
       \<and> sublist (str_int status) (apology_http status)
       \<and> fst (process_message lower be rnd self w user_id message conv)
           = Some (handle_offline_fallback lower message)
       \<and> handle_offline_fallback lower message = offline_generic
       \<and> offline_generic \<noteq> []"
proof -
  have "fst (process_with_ai lower be (self\<lparr>current_user_id := Some user_id\<rparr>) w user_id message)
      = Some (handle_offline_fallback lower message)"
    using assms(2-4) by (intro process_with_ai_raises [where c = c and f = f]) simp_all
  then have "fst (process_message lower be rnd self w user_id message conv)
      = Some (handle_offline_fallback lower message)"
    by (simp add: process_message_online [where lower = lower and m = message, OF assms(2) assms(5)])
  moreover have "sublist (str_int status) (apology_http status)"
    by (simp add: apology_http_def)
  ultimately show ?thesis
    using assms(1,5)
    by (simp add: call_openrouter_api_failure first_content_response apology_texts_nonempty
        fallback_generic offline_fallback_texts_nonempty)
qed

theorem transport_failure_responses_witness:
  "first_content (fst (call_openrouter_api (\<lambda>r. HttpRaises (HTTPError 500 (str ''oops'') (str ''Server Error'')))
      (fst (init (Some (str ''sk-test'')) \<lparr>network = [], stdout = []\<rparr>))
      \<lparr>network = [], stdout = []\<rparr> [] None)) = Some (apology_http 500)
   \<and> sublist (str_int 500) (apology_http 500)
   \<and> fst (process_message py_lower (\<lambda>c r. Raises (HTTPError 500 (str ''oops'') (str ''Server Error''))) 0
        (fst (init (Some (str ''sk-test'')) \<lparr>network = [], stdout = []\<rparr>))
        \<lparr>network = [], stdout = []\<rparr> (str ''u1'') (str ''hello'') None) = Some offline_generic"
proof -
  let ?w = "\<lparr>network = [], stdout = []\<rparr>"
  let ?ag = "fst (init (Some (str ''sk-test'')) ?w)"
  have on: "\<not> offline_mode ?ag"
    by (simp add: init_offline sk_test_nonempty)
  have cl: "client ?ag = Some \<lparr>client_api_key = str ''sk-test'', client_base_url = str ''https://openrouter.ai/api/v1''\<rparr>"
    by (simp add: init_online_fields sk_test_nonempty)
  have nt: "\<not> is_todo_command (py_strip (py_lower (str ''hello'')))"
    by (simp add: norm_hello hello_not_todo)
  show ?thesis
    using transport_failure_responses [where post = "\<lambda>r. HttpRaises (HTTPError 500 (str ''oops'') (str ''Server Error''))"
        and self = ?ag and messages = "[]" and tools = None
        and f = "HTTPError 500 (str ''oops'') (str ''Server Error'')"
        and be = "\<lambda>c r. Raises (HTTPError 500 (str ''oops'') (str ''Server Error''))"
        and user_id = "str ''u1''" and message = "str ''hello''" and lower = py_lower
        and w = ?w and status = 500 and rnd = 0 and conv = None, OF refl on cl refl nt]
    by simp
qed

text \<open>
  The claim as the specification states it has the router forward the client's apology
  unchanged. With an AI call that fails with status 500 on the message \<open>hello\<close>, the
  router answers with the generic offline text, which is not the apology of
  \<open>_call_openrouter_api\<close> for that failure and does not contain the status code.
\<close>

theorem router_forwards_client_string_counterexample:
  "fst (process_message py_lower (\<lambda>c r. Raises (HTTPError 500 (str ''oops'') (str ''Server Error''))) 0
        (fst (init (Some (str ''sk-test'')) \<lparr>network = [], stdout = []\<rparr>))
        \<lparr>network = [], stdout = []\<rparr> (str ''u1'') (str ''hello'') None) = Some offline_generic
   \<and> first_content (fst (call_openrouter_api (\<lambda>r. HttpRaises (HTTPError 500 (str ''oops'') (str ''Server Error'')))
      (fst (init (Some (str ''sk-test'')) \<lparr>network = [], stdout = []\<rparr>))
      \<lparr>network = [], stdout = []\<rparr> [] None)) = Some (apology_http 500)
   \<and> offline_generic \<noteq> apology_http 500
   \<and> str_int 500 = str ''500''
   \<and> \<not> sublist (str ''500'') offline_generic"
proof -
  let ?w = "\<lparr>network = [], stdout = []\<rparr>"
  let ?ag = "fst (init (Some (str ''sk-test'')) ?w)"
  let ?f = "HTTPError 500 (str ''oops'') (str ''Server Error'')"
  have on: "\<not> offline_mode ?ag"
    by (simp add: init_offline sk_test_nonempty)
  have cl: "client ?ag = Some \<lparr>client_api_key = str ''sk-test'', client_base_url = str ''https://openrouter.ai/api/v1''\<rparr>"
    by (simp add: init_online_fields sk_test_nonempty)
  have nt: "\<not> is_todo_command (py_strip (py_lower (str ''hello'')))"
    by (simp add: norm_hello hello_not_todo)
  have "fst (process_with_ai py_lower (\<lambda>c r. Raises ?f) (?ag\<lparr>current_user_id := Some (str ''u1'')\<rparr>) ?w (str ''u1'') (str ''hello''))
      = Some (handle_offline_fallback py_lower (str ''hello''))"
    using on cl by (intro process_with_ai_raises [where f = ?f]) simp_all
  then have a: "fst (process_message py_lower (\<lambda>c r. Raises ?f) 0 ?ag ?w (str ''u1'') (str ''hello'') None) = Some offline_generic"
    by (simp add: process_message_online [where lower = py_lower and m = "str ''hello''", OF on nt] fallback_generic [where lower = py_lower, OF nt])
  have b: "first_content (fst (call_openrouter_api (\<lambda>r. HttpRaises ?f) ?ag ?w [] None)) = Some (apology_http 500)"
    by (simp add: call_openrouter_api_failure first_content_response)
  have c: "offline_generic \<noteq> apology_http 500"
    by (simp add: offline_generic_def apology_http_def str_def)
  have d: "\<not> sublist (str ''500'') offline_generic"
    by (simp add: offline_generic_def str_def sublist_Cons_right)
  from a b c d show ?thesis by (simp add: str_int_500)
qed

subsection \<open>Totality and non-emptiness of the router\<close>




subsection \<open>Classification and sub-intents\<close>

lemma todo_keywords_spec: "todo_keywords = spec_todo_keywords"
  by (simp add: todo_keywords_def spec_todo_keywords_def)

lemma any_question_map:
  "any_question (map (\<lambda>q. q @ sp) qs) s
     = (\<exists>q \<in> set qs. prefix (q @ sp) s \<or> sublist (str '' '' @ q @ sp) s)"
  by (induction qs) (auto simp: startswith_def py_in_sublist)

lemma question_words_spec: "question_words = map (\<lambda>q. q @ str '' '') spec_interrogatives"
  by (simp add: question_words_def spec_interrogatives_def str_def)

lemma any_question_spec:
  "any_question question_words s
     = (\<exists>q \<in> set spec_interrogatives. prefix (q @ str '' '') s \<or> sublist (str '' '' @ q @ str '' '') s)"
  unfolding question_words_spec by (rule any_question_map)

lemma classify_eq_spec: "classify text = classify_spec text"
  unfolding classify_def classify_spec_def is_todo_command_def is_general_conversation_def
    any_in_contains_any any_question_spec todo_keywords_spec
  by simp

lemma classify_examples:
  "classify (str ''create a todo to buy milk'') = TodoCommand"
  "classify (str ''hi there'') = GeneralConversation"
  by (simp_all add: classify_def is_todo_command_def todo_keywords_def is_general_conversation_def
      general_keywords_def str_def)

lemma xyz123_rules:
  "\<not> is_todo_command (str ''xyz123'')"
  "\<not> any_in general_keywords (str ''xyz123'')"
  "\<not> any_question question_words (str ''xyz123'')"
  "length (py_split (str ''xyz123'')) = 1"
  by (simp_all add: is_todo_command_def todo_keywords_def general_keywords_def question_words_def
      str_def py_split_def isspace_def startswith_def)

lemma norm_create_milk:
  "py_strip (py_lower (str ''Create a todo to buy milk'')) = str ''create a todo to buy milk''"
  by (simp add: str_def py_lower_def lower_cp_def py_strip_def isspace_def)

text \<open>
  Claim C3. The branch that \<open>process_message\<close> takes on a lower-cased, trimmed message
  is the first match of the rules as the specification words them: a todo keyword of the
  fixed set as a substring gives TodoCommand; otherwise a small-talk keyword as a
  substring, an interrogative word followed by a space at the start or between spaces,
  or at most three tokens give GeneralConversation; otherwise Other. The three examples
  classify as stated, \<open>xyz123\<close> by the token-count rule alone.
\<close>

theorem classify_first_match:
  "classify text = classify_spec text
   \<and> py_strip (py_lower (str ''Create a todo to buy milk'')) = str ''create a todo to buy milk''
   \<and> classify (str ''create a todo to buy milk'') = TodoCommand
   \<and> classify (str ''hi there'') = GeneralConversation
   \<and> classify (str ''xyz123'') = GeneralConversation
   \<and> \<not> any_in general_keywords (str ''xyz123'')
   \<and> \<not> any_question question_words (str ''xyz123'')
   \<and> length (py_split (str ''xyz123'')) = 1"
proof -
  have "classify (str ''xyz123'') = GeneralConversation"
    by (simp add: classify_def is_general_conversation_def xyz123_rules)
  then show ?thesis
    by (intro conjI classify_eq_spec norm_create_milk classify_examples xyz123_rules)
qed

theorem classify_first_match_witness:
  "classify_spec (str ''xyz123'') = GeneralConversation"
proof -
  have "classify (str ''xyz123'') = classify_spec (str ''xyz123'')"
    using classify_first_match [of "str ''xyz123''"] by (rule conjunct1)
  moreover have "classify (str ''xyz123'') = GeneralConversation"
    by (simp add: classify_def is_general_conversation_def xyz123_rules)
  ultimately show ?thesis by simp
qed

lemma resolve_examples:
  "resolve_todo_sub_intent (str ''create a new todo'') = Create"
  "resolve_todo_sub_intent (str ''show me my todos'') = List"
  "resolve_todo_sub_intent (str ''mark todo abc as done'') = Complete"
  "resolve_todo_sub_intent (str ''delete that task'') = Delete"
  "resolve_todo_sub_intent (str ''todo stuff'') = Unrecognized"
  by (simp_all add: resolve_todo_sub_intent_def contains_any_def str_def sublist_Cons_right)

lemma handle_todo_examples:
  "handle_todo_command u (str ''create a new todo'') = ack_create"
  "handle_todo_command u (str ''show me my todos'') = ack_list"
  "handle_todo_command u (str ''mark todo abc as done'') = ack_complete"
  "handle_todo_command u (str ''delete that task'') = ack_delete"
  "handle_todo_command u (str ''todo stuff'') = ack_unrecognized"
  by (simp_all add: handle_todo_command_def str_def)

lemma todo_examples_are_commands:
  "is_todo_command (str ''create a new todo'')"
  "is_todo_command (str ''show me my todos'')"
  "is_todo_command (str ''mark todo abc as done'')"
  "is_todo_command (str ''delete that task'')"
  "is_todo_command (str ''todo stuff'')"
  by (simp_all add: is_todo_command_def todo_keywords_def str_def)

text \<open>
  Claim C6. \<open>_handle_todo_command\<close> returns the template of the sub-intent that the
  specification's first-match resolution gives (Create, then List, then Complete, then
  Delete, else Unrecognized); the five examples are todo commands and resolve as stated.
\<close>

theorem sub_intent_first_match:
  "handle_todo_command user_id_str text = sub_intent_template (resolve_todo_sub_intent text)
   \<and> resolve_todo_sub_intent (str ''create a new todo'') = Create
   \<and> resolve_todo_sub_intent (str ''show me my todos'') = List
   \<and> resolve_todo_sub_intent (str ''mark todo abc as done'') = Complete
   \<and> resolve_todo_sub_intent (str ''delete that task'') = Delete
   \<and> resolve_todo_sub_intent (str ''todo stuff'') = Unrecognized
   \<and> handle_todo_command user_id_str (str ''create a new todo'') = ack_create
   \<and> handle_todo_command user_id_str (str ''show me my todos'') = ack_list
   \<and> handle_todo_command user_id_str (str ''mark todo abc as done'') = ack_complete
   \<and> handle_todo_command user_id_str (str ''delete that task'') = ack_delete
   \<and> handle_todo_command user_id_str (str ''todo stuff'') = ack_unrecognized
   \<and> classify (str ''create a new todo'') = TodoCommand
   \<and> classify (str ''show me my todos'') = TodoCommand
   \<and> classify (str ''mark todo abc as done'') = TodoCommand
   \<and> classify (str ''delete that task'') = TodoCommand
   \<and> classify (str ''todo stuff'') = TodoCommand"
  by (simp add: handle_todo_command_resolve resolve_examples classify_todo todo_examples_are_commands)

theorem sub_intent_first_match_witness:
  "handle_todo_command (str ''u1'') (str ''delete that task'') = sub_intent_template Delete"
  using sub_intent_first_match [of "str ''u1''" "str ''delete that task''"] by simp

lemma lower_cp_space: "isspace c \<Longrightarrow> lower_cp c = c"
  by (auto simp: isspace_def lower_cp_def)

lemma py_lower_spaces: "\<forall>c \<in> set m. isspace c \<Longrightarrow> py_lower m = m"
  by (induction m) (simp_all add: py_lower_def lower_cp_space)

lemma dropWhile_spaces: "\<forall>c \<in> set m. isspace c \<Longrightarrow> dropWhile isspace m = []"
  by (induction m) simp_all

lemma py_strip_spaces: "\<forall>c \<in> set m. isspace c \<Longrightarrow> py_strip m = []"
  by (simp add: py_strip_def dropWhile_spaces)

lemma classify_empty: "classify [] = GeneralConversation"
  by (simp add: classify_def is_todo_command_def todo_keywords_def is_general_conversation_def
      general_keywords_def question_words_def str_def py_split_def startswith_def)

lemma empty_rules:
  "\<not> is_todo_command []" "\<not> any_in general_keywords []" "\<not> any_question question_words []"
  "py_split [] = []"
  by (simp_all add: is_todo_command_def todo_keywords_def
      general_keywords_def question_words_def str_def py_split_def startswith_def)

text \<open>
  Claim C7, as the code has it. A message that is empty or consists of white space only
  is normalised to the empty string, which contains no keyword and has no token; the
  rule "at most three tokens" of \<open>_is_general_conversation\<close> then classifies it as
  GeneralConversation.
\<close>

theorem blank_message_general:
  assumes "\<forall>c \<in> set message. isspace c"
  shows "py_strip (py_lower message) = []
       \<and> classify (py_strip (py_lower message)) = GeneralConversation
       \<and> \<not> is_todo_command [] \<and> \<not> any_in general_keywords []
       \<and> \<not> any_question question_words [] \<and> py_split [] = []"
  using assms by (simp add: py_lower_spaces py_strip_spaces classify_empty empty_rules)

theorem blank_message_general_witness:
  "classify (py_strip (py_lower (str ''   ''))) = GeneralConversation"
proof -
  have "\<forall>c \<in> set (str ''   ''). isspace c"
    by (simp add: str_def isspace_def)
  from blank_message_general [OF this]
  have "classify (py_strip (py_lower (str ''   ''))) = GeneralConversation"
    by (elim conjE)
  then show ?thesis .
qed

text \<open>
  The claim as the specification states it (such a message is treated as Other) fails on
  the empty message and on a message of three spaces.
\<close>

theorem blank_message_other_counterexample:
  "classify (py_strip (py_lower [])) \<noteq> Other
   \<and> classify (py_strip (py_lower (str ''   ''))) \<noteq> Other"
proof -
  have "py_strip (py_lower []) = []"
    by (simp add: py_strip_def py_lower_def)
  moreover have "py_strip (py_lower (str ''   '')) = []"
    by (simp add: str_def py_lower_def lower_cp_def py_strip_def isspace_def)
  ultimately show ?thesis
    by (simp add: classify_empty)
qed

subsection \<open>Title extraction\<close>

lemma extract_examples:
  "extract_todo_title py_lower (str ''create todo to buy milk'') = Some (str ''buy milk'')"
  "extract_todo_title py_lower (str ''todo: clean house'') = Some (str ''clean house'')"
  "extract_todo_title py_lower (str ''create todo to'') = Some []"
  "title_fallback (str ''create todo to'') = None"
  by (simp_all add: extract_todo_title_def title_fallback_def words_to_remove_def Let_def str_def
      py_lower_def lower_cp_def py_split1_def py_strip_def isspace_def py_replace_def)

lemma create_todo_to_patterns:
  "py_split1 (str ''create todo to'') (str ''todo to'') = [str ''create '', []]"
  "\<not> py_in (str ''todo:'') (str ''create todo to'')"
  "\<not> py_in (str ''add'') (py_lower (str ''create todo to''))"
  by (simp_all add: py_split1_def py_lower_def lower_cp_def str_def)

text \<open>
  Claim C9. \<open>_extract_todo_title\<close> tries the three patterns in order and gives the two
  titles of the specification's examples. The claim has it return the first non-empty
  match, and \<open>None\<close> when nothing is left. The code does not: on \<open>create todo to\<close> the
  first pattern applies, the text after it is empty, neither \<open>todo:\<close> nor \<open>add\<close> occurs
  and the fallback on the whole text gives \<open>None\<close>, yet the function returns the empty
  string. The pattern branches return their stripped match without the \<open>or None\<close> that
  the fallback line applies to its own result.
\<close>

theorem extract_title_empty_match:
  "extract_todo_title py_lower (str ''create todo to'') = Some []
   \<and> py_split1 (str ''create todo to'') (str ''todo to'') = [str ''create '', []]
   \<and> \<not> py_in (str ''todo:'') (str ''create todo to'')
   \<and> \<not> py_in (str ''add'') (py_lower (str ''create todo to''))
   \<and> title_fallback (str ''create todo to'') = None
   \<and> extract_todo_title py_lower (str ''create todo to buy milk'') = Some (str ''buy milk'')
   \<and> extract_todo_title py_lower (str ''todo: clean house'') = Some (str ''clean house'')"
  by (intro conjI extract_examples create_todo_to_patterns)

end
